theory Spec2Isabelle
  imports Complex_Main
begin

section \<open>Amounts, timestamps and strings\<close>

text \<open>
  Amounts of money are Python floats in the source. They are idealised here as real
  numbers: every claim below is about comparisons, one addition and one subtraction,
  and none depends on rounding. The special float values (nan, inf) have no counterpart.
\<close>

subsection \<open>Timestamps\<close>

text \<open>
  The result of \<^verbatim>\<open>datetime.now()\<close>. The program only ever formats it with
  \<^verbatim>\<open>"%d-%m-%Y %H:%M:%S"\<close> or takes its \<^verbatim>\<open>.date()\<close>, so the
  microsecond field is left out.
\<close>

record datetime =
  year :: nat
  month :: nat
  day :: nat
  hour :: nat
  minute :: nat
  second :: nat

type_synonym date = "nat \<times> nat \<times> nat"

definition date :: "datetime \<Rightarrow> date" where
  "date dt = (year dt, month dt, day dt)"

text \<open>
  \<^verbatim>\<open>strftime\<close> and \<^verbatim>\<open>strptime\<close> belong to Python's library, not to the
  repository. The functions of the program take them as parameters, so that every theorem
  holds whatever the library does; \<^verbatim>\<open>strptime\<close> returns \<open>None\<close> where the library
  raises \<^verbatim>\<open>ValueError\<close>. Each call of \<^verbatim>\<open>datetime.now()\<close> is a parameter of its
  own (\<open>agora\<close>), since two calls in one operation may fall on different days.
\<close>

type_synonym strftime_fn = "datetime \<Rightarrow> string"
type_synonym strptime_fn = "string \<Rightarrow> datetime option"

subsection \<open>Lower-casing\<close>

text \<open>
  \<^verbatim>\<open>str.lower()\<close> on ASCII text: the 26 capital letters are mapped to their small
  counterparts, every other character is kept.
\<close>

definition lower_char :: "char \<Rightarrow> char" where
  "lower_char c =
     (case map_of (zip ''ABCDEFGHIJKLMNOPQRSTUVWXYZ'' ''abcdefghijklmnopqrstuvwxyz'') c of
        Some d \<Rightarrow> d
      | None \<Rightarrow> c)"

definition lower :: "string \<Rightarrow> string" where
  "lower s = map lower_char s"

section \<open>desafio\_bancario\_otimizado.py\<close>

subsection \<open>Transacao, Saque, Deposito\<close>

datatype transacao = Saque real | Deposito real

fun Transacao_valor :: "transacao \<Rightarrow> real" where
  "Transacao_valor (Saque v) = v"
| "Transacao_valor (Deposito v) = v"

text \<open>\<^verbatim>\<open>transacao.__class__.__name__\<close>\<close>

fun class_name :: "transacao \<Rightarrow> string" where
  "class_name (Saque v) = ''Saque''"
| "class_name (Deposito v) = ''Deposito''"

subsection \<open>Historico\<close>

text \<open>
  One entry of \<^verbatim>\<open>Historico._transacoes\<close>: the dict with the keys
  \<^verbatim>\<open>"tipo"\<close>, \<^verbatim>\<open>"valor"\<close> and \<^verbatim>\<open>"data"\<close> that
  \<^verbatim>\<open>adicionar_transacao\<close> builds. The date is kept as the formatted string.
\<close>

record registro =
  tipo :: string
  valor :: real
  data :: string

type_synonym historico = "registro list"

definition Historico_adicionar_transacao ::
  "strftime_fn \<Rightarrow> datetime \<Rightarrow> historico \<Rightarrow> transacao \<Rightarrow> historico" where
  "Historico_adicionar_transacao strftime agora self transacao =
     self @ [\<lparr>tipo = class_name transacao,
              valor = Transacao_valor transacao,
              data = strftime agora\<rparr>]"

text \<open>
  \<^verbatim>\<open>gerar_relatorio\<close> is a generator; the model is the list of the values it
  yields, in the order it yields them. \<open>None\<close> is the omitted argument.
\<close>

fun Historico_gerar_relatorio :: "historico \<Rightarrow> string option \<Rightarrow> registro list" where
  "Historico_gerar_relatorio [] tipo_transacao = []"
| "Historico_gerar_relatorio (t # ts) tipo_transacao =
     (if (case tipo_transacao of
            None \<Rightarrow> True
          | Some k \<Rightarrow> lower (tipo t) = lower k)
      then t # Historico_gerar_relatorio ts tipo_transacao
      else Historico_gerar_relatorio ts tipo_transacao)"

text \<open>
  The loop of \<^verbatim>\<open>transacoes_do_dia\<close>, with the list built so far as accumulator.
  A record whose date does not parse is skipped (\<^verbatim>\<open>except ValueError: continue\<close>).
\<close>

fun transacoes_do_dia_loop ::
  "strptime_fn \<Rightarrow> date \<Rightarrow> registro list \<Rightarrow> registro list \<Rightarrow> registro list" where
  "transacoes_do_dia_loop strptime data_atual transacoes_do_dia [] = transacoes_do_dia"
| "transacoes_do_dia_loop strptime data_atual transacoes_do_dia (t # ts) =
     (case strptime (data t) of
        None \<Rightarrow> transacoes_do_dia_loop strptime data_atual transacoes_do_dia ts
      | Some dt \<Rightarrow>
          if data_atual = date dt
          then transacoes_do_dia_loop strptime data_atual (transacoes_do_dia @ [t]) ts
          else transacoes_do_dia_loop strptime data_atual transacoes_do_dia ts)"

definition Historico_transacoes_do_dia ::
  "strptime_fn \<Rightarrow> datetime \<Rightarrow> historico \<Rightarrow> registro list" where
  "Historico_transacoes_do_dia strptime agora self =
     transacoes_do_dia_loop strptime (date agora) [] self"

subsection \<open>Printed messages\<close>

text \<open>
  Every \<^verbatim>\<open>print\<close> of the account and client methods, one constructor for each
  distinct text. An operation returns the list of messages it printed, which makes the
  order of its checks visible.
\<close>

datatype mensagem =
    Valor_invalido            \<comment> \<open>"Operacao falhou! O valor informado e invalido."\<close>
  | Saldo_insuficiente        \<comment> \<open>"Operacao falhou! Voce nao tem saldo suficiente."\<close>
  | Saque_realizado           \<comment> \<open>"Saque realizado com sucesso!"\<close>
  | Deposito_realizado        \<comment> \<open>"Deposito realizado com sucesso!"\<close>
  | Excede_limite             \<comment> \<open>"Operacao falhou! O valor do saque excede o limite."\<close>
  | Maximo_saques_excedido    \<comment> \<open>"Operacao falhou! Numero maximo de saques excedido."\<close>
  | Transacoes_excedidas      \<comment> \<open>"Voce excedeu o numero de transacoes permitidas para hoje!"\<close>

subsection \<open>Conta\<close>

text \<open>
  The back reference \<^verbatim>\<open>_cliente\<close> is read only by \<^verbatim>\<open>__str__\<close> and is left out.
\<close>

record conta =
  saldo :: real
  numero :: int
  historico :: historico


definition Conta_sacar ::
  "'a conta_scheme \<Rightarrow> real \<Rightarrow> bool \<times> mensagem list \<times> 'a conta_scheme" where
  "Conta_sacar self v =
     (if v \<le> 0 then (False, [Valor_invalido], self)
      else if v > saldo self then (False, [Saldo_insuficiente], self)
      else (True, [Saque_realizado], self\<lparr>saldo := saldo self - v\<rparr>))"

definition Conta_depositar ::
  "'a conta_scheme \<Rightarrow> real \<Rightarrow> bool \<times> mensagem list \<times> 'a conta_scheme" where
  "Conta_depositar self v =
     (if v \<le> 0 then (False, [Valor_invalido], self)
      else (True, [Deposito_realizado], self\<lparr>saldo := saldo self + v\<rparr>))"

subsection \<open>ContaCorrente\<close>

record conta_corrente = conta +
  limite :: real
  limite_saques :: int


definition ContaCorrente_sacar ::
  "strptime_fn \<Rightarrow> datetime \<Rightarrow> conta_corrente \<Rightarrow> real \<Rightarrow>
     bool \<times> mensagem list \<times> conta_corrente" where
  "ContaCorrente_sacar strptime agora self v =
     (let saques_do_dia =
            filter (\<lambda>t. tipo t = ''Saque'')
              (Historico_transacoes_do_dia strptime agora (historico self));
          numero_saques = length saques_do_dia
      in if v > limite self then (False, [Excede_limite], self)
         else if int numero_saques \<ge> limite_saques self
           then (False, [Maximo_saques_excedido], self)
         else Conta_sacar self v)"

subsection \<open>Method dispatch on the class of the account\<close>

text \<open>
  A transaction receives an account of either class and calls \<^verbatim>\<open>conta.sacar\<close>,
  \<^verbatim>\<open>conta.depositar\<close> and \<^verbatim>\<open>conta.historico\<close> on it. The object is a value
  tagged with its class; \<open>sacar\<close> selects the method of that class, \<open>depositar\<close> is inherited
  by both.
\<close>

datatype conta_obj = Conta conta | ContaCorrente conta_corrente

fun saldo_de :: "conta_obj \<Rightarrow> real" where
  "saldo_de (Conta c) = saldo c"
| "saldo_de (ContaCorrente c) = saldo c"

fun historico_de :: "conta_obj \<Rightarrow> historico" where
  "historico_de (Conta c) = historico c"
| "historico_de (ContaCorrente c) = historico c"

fun com_historico :: "conta_obj \<Rightarrow> historico \<Rightarrow> conta_obj" where
  "com_historico (Conta c) h = Conta (c\<lparr>historico := h\<rparr>)"
| "com_historico (ContaCorrente c) h = ContaCorrente (c\<lparr>historico := h\<rparr>)"

fun sacar ::
  "strptime_fn \<Rightarrow> datetime \<Rightarrow> conta_obj \<Rightarrow> real \<Rightarrow> bool \<times> mensagem list \<times> conta_obj" where
  "sacar strptime agora (Conta c) v =
     (case Conta_sacar c v of (ok, out, c') \<Rightarrow> (ok, out, Conta c'))"
| "sacar strptime agora (ContaCorrente c) v =
     (case ContaCorrente_sacar strptime agora c v of
        (ok, out, c') \<Rightarrow> (ok, out, ContaCorrente c'))"

fun depositar :: "conta_obj \<Rightarrow> real \<Rightarrow> bool \<times> mensagem list \<times> conta_obj" where
  "depositar (Conta c) v =
     (case Conta_depositar c v of (ok, out, c') \<Rightarrow> (ok, out, Conta c'))"
| "depositar (ContaCorrente c) v =
     (case Conta_depositar c v of (ok, out, c') \<Rightarrow> (ok, out, ContaCorrente c'))"

subsection \<open>Saque.registrar and Deposito.registrar\<close>

text \<open>
  \<open>agora_conta\<close> is the clock as \<^verbatim>\<open>ContaCorrente.sacar\<close> reads it, \<open>agora_hist\<close> the
  clock as \<^verbatim>\<open>adicionar_transacao\<close> reads it afterwards.
\<close>

definition Saque_registrar ::
  "strftime_fn \<Rightarrow> strptime_fn \<Rightarrow> datetime \<Rightarrow> datetime \<Rightarrow> real \<Rightarrow> conta_obj \<Rightarrow>
     bool \<times> mensagem list \<times> conta_obj" where
  "Saque_registrar strftime strptime agora_conta agora_hist v conta0 =
     (case sacar strptime agora_conta conta0 v of
        (sucesso_transacao, out, conta1) \<Rightarrow>
          if sucesso_transacao
          then (sucesso_transacao, out,
                com_historico conta1
                  (Historico_adicionar_transacao strftime agora_hist
                     (historico_de conta1) (Saque v)))
          else (sucesso_transacao, out, conta1))"

definition Deposito_registrar ::
  "strftime_fn \<Rightarrow> datetime \<Rightarrow> real \<Rightarrow> conta_obj \<Rightarrow> bool \<times> mensagem list \<times> conta_obj" where
  "Deposito_registrar strftime agora_hist v conta0 =
     (case depositar conta0 v of
        (sucesso_transacao, out, conta1) \<Rightarrow>
          if sucesso_transacao
          then (sucesso_transacao, out,
                com_historico conta1
                  (Historico_adicionar_transacao strftime agora_hist
                     (historico_de conta1) (Deposito v)))
          else (sucesso_transacao, out, conta1))"

fun registrar ::
  "strftime_fn \<Rightarrow> strptime_fn \<Rightarrow> datetime \<Rightarrow> datetime \<Rightarrow> transacao \<Rightarrow> conta_obj \<Rightarrow>
     bool \<times> mensagem list \<times> conta_obj" where
  "registrar strftime strptime agora_conta agora_hist (Saque v) c =
     Saque_registrar strftime strptime agora_conta agora_hist v c"
| "registrar strftime strptime agora_conta agora_hist (Deposito v) c =
     Deposito_registrar strftime agora_hist v c"

subsection \<open>Cliente\<close>

text \<open>
  \<^verbatim>\<open>realizar_transacao\<close> reads no attribute of the client itself, so the client is not
  a parameter. \<open>agora_cliente\<close> is the clock as the client's own check reads it.
\<close>

definition Cliente_realizar_transacao ::
  "strftime_fn \<Rightarrow> strptime_fn \<Rightarrow> datetime \<Rightarrow> datetime \<Rightarrow> datetime \<Rightarrow>
     conta_obj \<Rightarrow> transacao \<Rightarrow> bool \<times> mensagem list \<times> conta_obj" where
  "Cliente_realizar_transacao strftime strptime agora_cliente agora_conta agora_hist c t =
     (if length (Historico_transacoes_do_dia strptime agora_cliente (historico_de c)) \<ge> 2
      then (False, [Transacoes_excedidas], c)
      else registrar strftime strptime agora_conta agora_hist t c)"

subsection \<open>Sequences of calls on one account\<close>

text \<open>
  A caller may invoke the two account methods directly or go through the client. A run
  applies a list of such calls to an account, each with the clock readings it consumes,
  and keeps the account that results, whether the call succeeded or not.
\<close>

datatype chamada =
    Chamada_sacar datetime real
  | Chamada_depositar real
  | Chamada_realizar_transacao datetime datetime datetime transacao



section \<open>desafio.py\<close>

text \<open>
  The first version of the exercise keeps the balance, the statement and the number of
  withdrawals in variables and passes them through two functions. The statement is a
  string to which one formatted line is appended for each movement; the model keeps the
  lines as values. The messages are those of the other program up to their wording.
\<close>

datatype linha_extrato = Linha_deposito real | Linha_saque real

definition desafio_depositar ::
  "real \<Rightarrow> linha_extrato list \<Rightarrow> real \<Rightarrow> mensagem list \<times> real \<times> linha_extrato list" where
  "desafio_depositar saldo0 extrato v =
     (if v > 0 then ([Deposito_realizado], saldo0 + v, extrato @ [Linha_deposito v])
      else ([Valor_invalido], saldo0, extrato))"

definition desafio_sacar ::
  "real \<Rightarrow> linha_extrato list \<Rightarrow> int \<Rightarrow> real \<Rightarrow> real \<Rightarrow> int \<Rightarrow>
     mensagem list \<times> real \<times> linha_extrato list \<times> int" where
  "desafio_sacar saldo0 extrato numero_saques v limite0 limite_saques0 =
     (let excedeu_saldo = v > saldo0;
          excedeu_limite = v > limite0;
          excedeu_saques = numero_saques \<ge> limite_saques0
      in if excedeu_saldo then ([Saldo_insuficiente], saldo0, extrato, numero_saques)
         else if excedeu_limite then ([Excede_limite], saldo0, extrato, numero_saques)
         else if excedeu_saques
           then ([Maximo_saques_excedido], saldo0, extrato, numero_saques)
         else if v > 0
           then ([Saque_realizado], saldo0 - v, extrato @ [Linha_saque v], numero_saques + 1)
         else ([Valor_invalido], saldo0, extrato, numero_saques))"

section \<open>A model of the two library functions\<close>

text \<open>
  For concrete runs only: \<^verbatim>\<open>strftime\<close> with the format \<^verbatim>\<open>"%d-%m-%Y %H:%M:%S"\<close>
  and a \<^verbatim>\<open>strptime\<close> that reads back exactly the zero-padded strings that format
  produces, rejecting a date that does not exist. (Python's \<^verbatim>\<open>strptime\<close> reads some
  unpadded strings too; no record the program writes is of that kind.)
\<close>

definition dois_digitos :: "nat \<Rightarrow> string" where
  "dois_digitos n = [''0123456789'' ! (n div 10 mod 10), ''0123456789'' ! (n mod 10)]"

definition strftime_model :: strftime_fn where
  "strftime_model dt =
     dois_digitos (day dt) @ ''-'' @ dois_digitos (month dt) @ ''-'' @
     dois_digitos (year dt div 100) @ dois_digitos (year dt mod 100) @ '' '' @
     dois_digitos (hour dt) @ '':'' @ dois_digitos (minute dt) @ '':'' @
     dois_digitos (second dt)"

definition digito :: "char \<Rightarrow> nat option" where
  "digito c =
     (let n = (of_char c :: nat) in if 48 \<le> n \<and> n \<le> 57 then Some (n - 48) else None)"

fun numero_decimal :: "nat \<Rightarrow> string \<Rightarrow> nat option" where
  "numero_decimal acc [] = Some acc"
| "numero_decimal acc (c # cs) =
     (case digito c of
        None \<Rightarrow> None
      | Some d \<Rightarrow> numero_decimal (10 * acc + d) cs)"

definition ano_bissexto :: "nat \<Rightarrow> bool" where
  "ano_bissexto y \<longleftrightarrow> y mod 4 = 0 \<and> (y mod 100 \<noteq> 0 \<or> y mod 400 = 0)"

definition dias_no_mes :: "nat \<Rightarrow> nat \<Rightarrow> nat" where
  "dias_no_mes y m =
     (if m = 2 then (if ano_bissexto y then 29 else 28)
      else if m = 4 \<or> m = 6 \<or> m = 9 \<or> m = 11 then 30
      else 31)"

definition datetime_valido :: "datetime \<Rightarrow> bool" where
  "datetime_valido dt \<longleftrightarrow>
     1 \<le> year dt \<and> year dt \<le> 9999 \<and> 1 \<le> month dt \<and> month dt \<le> 12 \<and>
     1 \<le> day dt \<and> day dt \<le> dias_no_mes (year dt) (month dt) \<and>
     hour dt < 24 \<and> minute dt < 60 \<and> second dt < 60"

definition strptime_model :: strptime_fn where
  "strptime_model s =
     (if length s = 19 \<and> s ! 2 = CHR ''-'' \<and> s ! 5 = CHR ''-'' \<and> s ! 10 = CHR '' '' \<and>
         s ! 13 = CHR '':'' \<and> s ! 16 = CHR '':''
      then
        Option.bind (numero_decimal 0 (take 2 s)) (\<lambda>d.
        Option.bind (numero_decimal 0 (take 2 (drop 3 s))) (\<lambda>m.
        Option.bind (numero_decimal 0 (take 4 (drop 6 s))) (\<lambda>y.
        Option.bind (numero_decimal 0 (take 2 (drop 11 s))) (\<lambda>H.
        Option.bind (numero_decimal 0 (take 2 (drop 14 s))) (\<lambda>M.
        Option.bind (numero_decimal 0 (take 2 (drop 17 s))) (\<lambda>S.
          (let dt = \<lparr>year = y, month = m, day = d, hour = H, minute = M, second = S\<rparr>
           in if datetime_valido dt then Some dt else None)))))))
      else None)"

section \<open>Notions used to state the properties\<close>

text \<open>
  The date a record stores: the date of the timestamp its \<^verbatim>\<open>"data"\<close> string parses
  to, if it parses.
\<close>

definition data_armazenada :: "strptime_fn \<Rightarrow> registro \<Rightarrow> date option" where
  "data_armazenada strptime t = map_option date (strptime (data t))"

text \<open>The record that a transaction leaves in the history when the clock reads \<open>agora\<close>.\<close>

definition registro_de :: "strftime_fn \<Rightarrow> datetime \<Rightarrow> transacao \<Rightarrow> registro" where
  "registro_de strftime agora t =
     \<lparr>tipo = class_name t, valor = Transacao_valor t, data = strftime agora\<rparr>"

text \<open>The account operation that corresponds to a transaction, called with its amount.\<close>

fun operacao_da_conta ::
  "strptime_fn \<Rightarrow> datetime \<Rightarrow> transacao \<Rightarrow> conta_obj \<Rightarrow> bool \<times> mensagem list \<times> conta_obj" where
  "operacao_da_conta strptime agora (Saque v) c = sacar strptime agora c v"
| "operacao_da_conta strptime agora (Deposito v) c = depositar c v"

text \<open>The number of today's records of an account, of any kind and of the withdrawal kind.\<close>

definition transacoes_hoje :: "strptime_fn \<Rightarrow> datetime \<Rightarrow> conta_obj \<Rightarrow> nat" where
  "transacoes_hoje strptime agora c =
     length (Historico_transacoes_do_dia strptime agora (historico_de c))"

definition saques_hoje :: "strptime_fn \<Rightarrow> datetime \<Rightarrow> conta_obj \<Rightarrow> nat" where
  "saques_hoje strptime agora c =
     length (filter (\<lambda>t. tipo t = ''Saque'')
       (Historico_transacoes_do_dia strptime agora (historico_de c)))"

section \<open>Example data\<close>

text \<open>
  A clock reading on 6 November 2026, and a history with one record of the day before,
  two of that day and one whose date does not parse.
\<close>

definition agora_ex :: datetime where
  "agora_ex = \<lparr>year = 2026, month = 11, day = 6, hour = 9, minute = 5, second = 0\<rparr>"

definition historico_ex :: historico where
  "historico_ex =
     [\<lparr>tipo = ''Deposito'', valor = 1000, data = ''05-11-2026 23:59:59''\<rparr>,
      \<lparr>tipo = ''Saque'', valor = 500, data = ''06-11-2026 00:00:00''\<rparr>,
      \<lparr>tipo = ''Saque'', valor = 10, data = ''ontem''\<rparr>,
      \<lparr>tipo = ''Deposito'', valor = 20, data = ''06-11-2026 18:30:00''\<rparr>]"

text \<open>
  The scenario of the specification on a new current account (cap 500, three withdrawals
  a day), every call going through the client on the same day: deposit 1000, withdraw
  600, withdraw 500, withdraw 500.
\<close>

definition chamadas_ex :: "chamada list" where
  "chamadas_ex =
     [Chamada_realizar_transacao agora_ex agora_ex agora_ex (Deposito 1000),
      Chamada_realizar_transacao agora_ex agora_ex agora_ex (Saque 600),
      Chamada_realizar_transacao agora_ex agora_ex agora_ex (Saque 500),
      Chamada_realizar_transacao agora_ex agora_ex agora_ex (Saque 500)]"

lemmas ex_defs = agora_ex_def historico_ex_def chamadas_ex_def

lemmas model_defs =
  strptime_model_def strftime_model_def dois_digitos_def digito_def datetime_valido_def
  dias_no_mes_def ano_bissexto_def data_armazenada_def date_def

section \<open>Conta: sacar and depositar\<close>

text \<open>
  C3. On a base account, \<^verbatim>\<open>sacar\<close> returns false and leaves the whole account as it was
  when the amount is not positive or exceeds the balance; otherwise it returns true and
  the only change is that the amount is subtracted from the balance.
\<close>

theorem Conta_sacar_resultado:
  fixes c :: "'a conta_scheme"
  shows "(fst (Conta_sacar c v), snd (snd (Conta_sacar c v))) =
           (if v \<le> 0 \<or> v > saldo c then (False, c)
            else (True, c\<lparr>saldo := saldo c - v\<rparr>))"
  by (simp add: Conta_sacar_def)

theorem Conta_sacar_resultado_witness:
  "(fst (Conta_sacar \<lparr>saldo = 50, numero = 1, historico = []\<rparr> 100),
    snd (snd (Conta_sacar \<lparr>saldo = 50, numero = 1, historico = []\<rparr> 100))) =
     (False, \<lparr>saldo = 50, numero = 1, historico = []\<rparr>) \<and>
   (fst (Conta_sacar \<lparr>saldo = 50, numero = 1, historico = []\<rparr> 20),
    snd (snd (Conta_sacar \<lparr>saldo = 50, numero = 1, historico = []\<rparr> 20))) =
     (True, \<lparr>saldo = 30, numero = 1, historico = []\<rparr>)"
  using Conta_sacar_resultado [where c = "\<lparr>saldo = 50, numero = 1, historico = []\<rparr>" and v = 100]
    Conta_sacar_resultado [where c = "\<lparr>saldo = 50, numero = 1, historico = []\<rparr>" and v = 20]
  by simp

text \<open>
  C4. \<^verbatim>\<open>depositar\<close>, which both classes of account share, returns false and leaves
  the whole account (so its balance) as it was when the amount is not positive; otherwise
  it returns true and the only change is that the amount is added to the balance. The
  function of desafio.py, which returns no flag, treats the balance and the statement it
  is given by the same rule.
\<close>

theorem Conta_depositar_resultado:
  fixes c :: "'a conta_scheme"
  shows "(fst (Conta_depositar c v), snd (snd (Conta_depositar c v))) =
           (if v \<le> 0 then (False, c) else (True, c\<lparr>saldo := saldo c + v\<rparr>)) \<and>
         snd (desafio_depositar s e v) =
           (if v \<le> 0 then (s, e) else (s + v, e @ [Linha_deposito v]))"
  by (simp add: Conta_depositar_def desafio_depositar_def)

theorem Conta_depositar_resultado_witness:
  "(fst (Conta_depositar \<lparr>saldo = 50, numero = 1, historico = []\<rparr> 25),
    snd (snd (Conta_depositar \<lparr>saldo = 50, numero = 1, historico = []\<rparr> 25))) =
     (True, \<lparr>saldo = 75, numero = 1, historico = []\<rparr>) \<and>
   snd (desafio_depositar 50 [] (- 1)) = (50, [])"
  using Conta_depositar_resultado
    [where c = "\<lparr>saldo = 50, numero = 1, historico = []\<rparr>" and v = 25 and s = 50 and e = "[]"]
    Conta_depositar_resultado
    [where c = "\<lparr>saldo = 50, numero = 1, historico = []\<rparr>" and v = "- 1" and s = 50 and e = "[]"]
  by simp

section \<open>Historico\<close>

text \<open>The loop appends to what it was given the records of the day, in their order.\<close>

lemma transacoes_do_dia_loop_filter:
  "transacoes_do_dia_loop P d acc h = acc @ filter (\<lambda>t. data_armazenada P t = Some d) h"
  by (induction h arbitrary: acc) (auto simp: data_armazenada_def split: option.splits)

lemma transacoes_do_dia_filter:
  "Historico_transacoes_do_dia P agora h =
     filter (\<lambda>t. data_armazenada P t = Some (date agora)) h"
  by (simp add: Historico_transacoes_do_dia_def transacoes_do_dia_loop_filter)

lemma date_hora: "date (dt\<lparr>hour := H, minute := M, second := S\<rparr>) = date dt"
  by (simp add: date_def)

lemma gerar_relatorio_None: "Historico_gerar_relatorio h None = h"
  by (induction h) auto

lemma gerar_relatorio_Some:
  "Historico_gerar_relatorio h (Some k) = filter (\<lambda>t. lower (tipo t) = lower k) h"
  by (induction h) auto

lemma lower_saque:
  "lower ''Saque'' = ''saque''" "lower ''saque'' = ''saque''" "lower ''SAQUE'' = ''saque''"
  "lower ''Deposito'' = ''deposito''" "lower ''deposito'' = ''deposito''"
  by (simp_all add: lower_def lower_char_def)

text \<open>
  C7. \<^verbatim>\<open>transacoes_do_dia\<close> returns, in the order of the history, exactly the records
  whose stored date is the date of the clock reading. Only dates are compared: another
  time of day on the clock, or on every parsed timestamp, gives the same list.
\<close>

theorem Historico_transacoes_do_dia_hoje:
  "Historico_transacoes_do_dia P agora h =
     filter (\<lambda>t. data_armazenada P t = Some (date agora)) h \<and>
   Historico_transacoes_do_dia P (agora\<lparr>hour := H, minute := M, second := S\<rparr>) h =
     Historico_transacoes_do_dia P agora h \<and>
   Historico_transacoes_do_dia
     (\<lambda>s. map_option (\<lambda>dt. dt\<lparr>hour := H, minute := M, second := S\<rparr>) (P s)) agora h =
     Historico_transacoes_do_dia P agora h"
  by (simp add: transacoes_do_dia_filter date_hora data_armazenada_def option.map_comp comp_def)

theorem Historico_transacoes_do_dia_hoje_witness:
  "Historico_transacoes_do_dia strptime_model agora_ex historico_ex =
     [\<lparr>tipo = ''Saque'', valor = 500, data = ''06-11-2026 00:00:00''\<rparr>,
      \<lparr>tipo = ''Deposito'', valor = 20, data = ''06-11-2026 18:30:00''\<rparr>] \<and>
   Historico_transacoes_do_dia strptime_model
     (agora_ex\<lparr>hour := 23, minute := 59, second := 59\<rparr>) historico_ex =
     Historico_transacoes_do_dia strptime_model agora_ex historico_ex"
  using Historico_transacoes_do_dia_hoje
    [where P = strptime_model and agora = agora_ex and h = historico_ex and
      H = 23 and M = 59 and S = 59]
  by (simp add: ex_defs model_defs)

text \<open>
  C8. With a kind, \<^verbatim>\<open>gerar_relatorio\<close> yields exactly the records whose kind matches
  it (the comparison is the program's: equality after lower-casing), in the order of the
  history; with the kind omitted it yields the whole history, in order.
\<close>

theorem Historico_gerar_relatorio_filtra:
  "Historico_gerar_relatorio h None = h \<and>
   Historico_gerar_relatorio h (Some k) = filter (\<lambda>t. lower (tipo t) = lower k) h"
  by (simp add: gerar_relatorio_None gerar_relatorio_Some)

theorem Historico_gerar_relatorio_filtra_witness:
  "Historico_gerar_relatorio historico_ex None = historico_ex \<and>
   Historico_gerar_relatorio historico_ex (Some ''Deposito'') =
     [\<lparr>tipo = ''Deposito'', valor = 1000, data = ''05-11-2026 23:59:59''\<rparr>,
      \<lparr>tipo = ''Deposito'', valor = 20, data = ''06-11-2026 18:30:00''\<rparr>]"
  using Historico_gerar_relatorio_filtra [where h = historico_ex and k = "''Deposito''"]
  by (simp add: ex_defs lower_saque)

text \<open>
  C10. The match is case-insensitive: a record is yielded exactly when its kind and the
  argument are equal after lower-casing, so two arguments that differ only in case give
  the same report, and filtering by "saque" keeps every record whose kind is "Saque".
\<close>

theorem Historico_gerar_relatorio_sem_caixa:
  "(t \<in> set (Historico_gerar_relatorio h (Some k)) \<longleftrightarrow>
      t \<in> set h \<and> lower (tipo t) = lower k) \<and>
   (lower k = lower k' \<longrightarrow>
      Historico_gerar_relatorio h (Some k) = Historico_gerar_relatorio h (Some k')) \<and>
   filter (\<lambda>t. tipo t = ''Saque'') (Historico_gerar_relatorio h (Some ''saque'')) =
     filter (\<lambda>t. tipo t = ''Saque'') h"
proof -
  have "\<And>t. tipo t = ''Saque'' \<Longrightarrow> lower (tipo t) = ''saque''"
    by (simp add: lower_saque)
  then have "filter (\<lambda>t. tipo t = ''Saque'') (filter (\<lambda>t. lower (tipo t) = ''saque'') h) =
     filter (\<lambda>t. tipo t = ''Saque'') h"
    by (auto intro: filter_cong)
  then show ?thesis
    by (auto simp: gerar_relatorio_Some lower_saque)
qed

theorem Historico_gerar_relatorio_sem_caixa_witness:
  "lower ''saque'' = lower ''SAQUE'' \<and>
   Historico_gerar_relatorio historico_ex (Some ''saque'') =
     Historico_gerar_relatorio historico_ex (Some ''SAQUE'') \<and>
   Historico_gerar_relatorio historico_ex (Some ''saque'') =
     [\<lparr>tipo = ''Saque'', valor = 500, data = ''06-11-2026 00:00:00''\<rparr>,
      \<lparr>tipo = ''Saque'', valor = 10, data = ''ontem''\<rparr>]"
proof -
  have eq: "lower ''saque'' = lower ''SAQUE''"
    by (simp add: lower_saque)
  have "Historico_gerar_relatorio historico_ex (Some ''saque'') =
     Historico_gerar_relatorio historico_ex (Some ''SAQUE'')"
    using Historico_gerar_relatorio_sem_caixa
      [where h = historico_ex and k = "''saque''" and k' = "''SAQUE''"] eq
    by blast
  moreover have "Historico_gerar_relatorio historico_ex (Some ''saque'') =
     [\<lparr>tipo = ''Saque'', valor = 500, data = ''06-11-2026 00:00:00''\<rparr>,
      \<lparr>tipo = ''Saque'', valor = 10, data = ''ontem''\<rparr>]"
    by (simp add: ex_defs lower_saque)
  ultimately show ?thesis
    using eq by simp
qed

section \<open>ContaCorrente.sacar\<close>

text \<open>
  C1. \<^verbatim>\<open>ContaCorrente.sacar\<close> checks the amount against the cap first, then the number
  of today's withdrawal records against the daily maximum, and only then calls the
  withdrawal of the base class; the first check that fails decides the message and the
  account is returned as it was. An amount above the cap is therefore refused with the
  cap's message whatever the balance. The number of today's withdrawals is the number of
  records of kind "Saque" whose stored date is the date of the clock reading.
\<close>

theorem ContaCorrente_sacar_ordem:
  "ContaCorrente_sacar P agora c v =
     (if v > limite c then (False, [Excede_limite], c)
      else if int (saques_hoje P agora (ContaCorrente c)) \<ge> limite_saques c
        then (False, [Maximo_saques_excedido], c)
      else Conta_sacar c v) \<and>
   saques_hoje P agora (ContaCorrente c) =
     length (filter (\<lambda>t. tipo t = ''Saque'' \<and> data_armazenada P t = Some (date agora))
       (historico c))"
  by (simp add: ContaCorrente_sacar_def saques_hoje_def transacoes_do_dia_filter Let_def
      conj_commute)

theorem ContaCorrente_sacar_ordem_witness:
  "ContaCorrente_sacar strptime_model agora_ex
     \<lparr>saldo = 1000, numero = 1, historico = [], limite = 500, limite_saques = 3\<rparr> 600 =
     (False, [Excede_limite],
      \<lparr>saldo = 1000, numero = 1, historico = [], limite = 500, limite_saques = 3\<rparr>) \<and>
   ContaCorrente_sacar strptime_model agora_ex
     \<lparr>saldo = 100, numero = 1, historico = [], limite = 500, limite_saques = 3\<rparr> 600 =
     (False, [Excede_limite],
      \<lparr>saldo = 100, numero = 1, historico = [], limite = 500, limite_saques = 3\<rparr>) \<and>
   ContaCorrente_sacar strptime_model agora_ex
     \<lparr>saldo = 100, numero = 1, historico = historico_ex, limite = 500, limite_saques = 1\<rparr> 200 =
     (False, [Maximo_saques_excedido],
      \<lparr>saldo = 100, numero = 1, historico = historico_ex, limite = 500, limite_saques = 1\<rparr>) \<and>
   ContaCorrente_sacar strptime_model agora_ex
     \<lparr>saldo = 100, numero = 1, historico = historico_ex, limite = 500, limite_saques = 2\<rparr> 200 =
     (False, [Saldo_insuficiente],
      \<lparr>saldo = 100, numero = 1, historico = historico_ex, limite = 500, limite_saques = 2\<rparr>) \<and>
   ContaCorrente_sacar strptime_model agora_ex
     \<lparr>saldo = 100, numero = 1, historico = historico_ex, limite = 500, limite_saques = 2\<rparr> 40 =
     (True, [Saque_realizado],
      \<lparr>saldo = 60, numero = 1, historico = historico_ex, limite = 500, limite_saques = 2\<rparr>)"
  using ContaCorrente_sacar_ordem [where P = strptime_model and agora = agora_ex and v = 600 and
      c = "\<lparr>saldo = 1000, numero = 1, historico = [], limite = 500, limite_saques = 3\<rparr>"]
    ContaCorrente_sacar_ordem [where P = strptime_model and agora = agora_ex and v = 600 and
      c = "\<lparr>saldo = 100, numero = 1, historico = [], limite = 500, limite_saques = 3\<rparr>"]
    ContaCorrente_sacar_ordem [where P = strptime_model and agora = agora_ex and v = 200 and
      c = "\<lparr>saldo = 100, numero = 1, historico = historico_ex, limite = 500, limite_saques = 1\<rparr>"]
    ContaCorrente_sacar_ordem [where P = strptime_model and agora = agora_ex and v = 200 and
      c = "\<lparr>saldo = 100, numero = 1, historico = historico_ex, limite = 500, limite_saques = 2\<rparr>"]
    ContaCorrente_sacar_ordem [where P = strptime_model and agora = agora_ex and v = 40 and
      c = "\<lparr>saldo = 100, numero = 1, historico = historico_ex, limite = 500, limite_saques = 2\<rparr>"]
  by (simp add: ex_defs model_defs Conta_sacar_def)

text \<open>
  The function of desafio.py tests the balance before the cap, so an amount above both is
  reported as a lack of balance there; in either case the three values come back as
  they were.
\<close>

lemma desafio_sacar_acima_do_limite:
  "v > l \<Longrightarrow>
   desafio_sacar s e n v l ls =
     ([if v > s then Saldo_insuficiente else Excede_limite], s, e, n)"
  by (simp add: desafio_sacar_def)

lemma desafio_sacar_saldo:
  "0 \<le> s \<Longrightarrow> 0 \<le> fst (snd (desafio_sacar s e n v l ls))"
  by (simp add: desafio_sacar_def Let_def)

lemma desafio_depositar_saldo:
  "0 \<le> s \<Longrightarrow> 0 \<le> fst (snd (desafio_depositar s e v))"
  by (simp add: desafio_depositar_def)

section \<open>Saque.registrar and Deposito.registrar\<close>

text \<open>Neither account method writes the history, and a refused call changes nothing.\<close>

lemma sacar_falha: "\<not> fst (sacar P a c v) \<Longrightarrow> snd (snd (sacar P a c v)) = c"
  by (cases c) (auto simp: Conta_sacar_def ContaCorrente_sacar_def Let_def split: if_splits)

lemma depositar_falha: "\<not> fst (depositar c v) \<Longrightarrow> snd (snd (depositar c v)) = c"
  by (cases c) (auto simp: Conta_depositar_def split: if_splits)

lemma sacar_historico: "historico_de (snd (snd (sacar P a c v))) = historico_de c"
  by (cases c) (auto simp: Conta_sacar_def ContaCorrente_sacar_def Let_def split: if_splits)

lemma depositar_historico: "historico_de (snd (snd (depositar c v))) = historico_de c"
  by (cases c) (auto simp: Conta_depositar_def split: if_splits)

lemma operacao_falha:
  "\<not> fst (operacao_da_conta P a t c) \<Longrightarrow> snd (snd (operacao_da_conta P a t c)) = c"
  by (cases t) (simp_all add: sacar_falha depositar_falha)

lemma historico_com_historico: "historico_de (com_historico c h) = h"
  by (cases c) simp_all

lemma saldo_com_historico: "saldo_de (com_historico c h) = saldo_de c"
  by (cases c) simp_all

lemma registrar_operacao:
  "registrar F P ac ah t c =
     (fst (operacao_da_conta P ac t c), fst (snd (operacao_da_conta P ac t c)),
      if fst (operacao_da_conta P ac t c)
      then com_historico (snd (snd (operacao_da_conta P ac t c)))
             (historico_de c @ [registro_de F ah t])
      else c)"
proof (cases t)
  case (Saque v)
  show ?thesis
    using sacar_falha [of P ac c v] sacar_historico [of P ac c v]
    by (auto simp: Saque Saque_registrar_def Historico_adicionar_transacao_def registro_de_def
        split: prod.splits)
next
  case (Deposito v)
  show ?thesis
    using depositar_falha [of c v] depositar_historico [of c v]
    by (auto simp: Deposito Deposito_registrar_def Historico_adicionar_transacao_def
        registro_de_def split: prod.splits)
qed

text \<open>
  C5. \<^verbatim>\<open>registrar\<close> calls the account operation of its kind with its amount and
  returns the flag (and the message) of that call. When the flag is true the account is
  the one the operation left, with exactly one record, that of the transaction, appended
  to the history; when it is false the account, so its history, is as it was.
\<close>

theorem registrar_resultado:
  "registrar F P ac ah t c =
     (fst (operacao_da_conta P ac t c), fst (snd (operacao_da_conta P ac t c)),
      if fst (operacao_da_conta P ac t c)
      then com_historico (snd (snd (operacao_da_conta P ac t c)))
             (historico_de c @ [registro_de F ah t])
      else c) \<and>
   fst (registrar F P ac ah t c) = fst (operacao_da_conta P ac t c) \<and>
   historico_de (snd (snd (registrar F P ac ah t c))) =
     (if fst (operacao_da_conta P ac t c) then historico_de c @ [registro_de F ah t]
      else historico_de c) \<and>
   saldo_de (snd (snd (registrar F P ac ah t c))) =
     saldo_de (snd (snd (operacao_da_conta P ac t c)))"
  using operacao_falha [of P ac t c]
  by (simp add: registrar_operacao historico_com_historico saldo_com_historico)

theorem registrar_resultado_witness:
  "registrar strftime_model strptime_model agora_ex agora_ex (Saque 20)
     (Conta \<lparr>saldo = 50, numero = 1, historico = []\<rparr>) =
     (True, [Saque_realizado],
      Conta \<lparr>saldo = 30, numero = 1,
        historico = [\<lparr>tipo = ''Saque'', valor = 20, data = ''06-11-2026 09:05:00''\<rparr>]\<rparr>) \<and>
   registrar strftime_model strptime_model agora_ex agora_ex (Saque 100)
     (Conta \<lparr>saldo = 50, numero = 1, historico = []\<rparr>) =
     (False, [Saldo_insuficiente], Conta \<lparr>saldo = 50, numero = 1, historico = []\<rparr>) \<and>
   registrar strftime_model strptime_model agora_ex agora_ex (Deposito 5)
     (ContaCorrente \<lparr>saldo = 50, numero = 1, historico = [], limite = 500, limite_saques = 3\<rparr>) =
     (True, [Deposito_realizado],
      ContaCorrente \<lparr>saldo = 55, numero = 1,
        historico = [\<lparr>tipo = ''Deposito'', valor = 5, data = ''06-11-2026 09:05:00''\<rparr>],
        limite = 500, limite_saques = 3\<rparr>)"
  using registrar_resultado [where F = strftime_model and P = strptime_model and
      ac = agora_ex and ah = agora_ex and t = "Saque 20" and
      c = "Conta \<lparr>saldo = 50, numero = 1, historico = []\<rparr>"]
    registrar_resultado [where F = strftime_model and P = strptime_model and
      ac = agora_ex and ah = agora_ex and t = "Saque 100" and
      c = "Conta \<lparr>saldo = 50, numero = 1, historico = []\<rparr>"]
    registrar_resultado [where F = strftime_model and P = strptime_model and
      ac = agora_ex and ah = agora_ex and t = "Deposito 5" and
      c = "ContaCorrente \<lparr>saldo = 50, numero = 1, historico = [], limite = 500, limite_saques = 3\<rparr>"]
  by (simp add: ex_defs model_defs registro_de_def Conta_sacar_def Conta_depositar_def)

section \<open>Cliente.realizar\_transacao\<close>

text \<open>
  C2. \<^verbatim>\<open>realizar_transacao\<close> returns false and the account as it was (balance and
  history included) when the account already has two or more records of today, deposits
  and withdrawals counted together; otherwise its result is that of
  \<^verbatim>\<open>transacao.registrar(conta)\<close>. The number of today's records is the number of
  records, of any kind, whose stored date is the date of the clock reading.
\<close>

theorem Cliente_realizar_transacao_limite_diario:
  "Cliente_realizar_transacao F P acl ac ah c t =
     (if transacoes_hoje P acl c \<ge> 2 then (False, [Transacoes_excedidas], c)
      else registrar F P ac ah t c) \<and>
   transacoes_hoje P acl c =
     length (filter (\<lambda>r. data_armazenada P r = Some (date acl)) (historico_de c))"
  by (simp add: Cliente_realizar_transacao_def transacoes_hoje_def transacoes_do_dia_filter)

theorem Cliente_realizar_transacao_limite_diario_witness:
  "Cliente_realizar_transacao strftime_model strptime_model agora_ex agora_ex agora_ex
     (Conta \<lparr>saldo = 100, numero = 1, historico = historico_ex\<rparr>) (Deposito 10) =
     (False, [Transacoes_excedidas], Conta \<lparr>saldo = 100, numero = 1, historico = historico_ex\<rparr>) \<and>
   Cliente_realizar_transacao strftime_model strptime_model agora_ex agora_ex agora_ex
     (Conta \<lparr>saldo = 100, numero = 1, historico = take 2 historico_ex\<rparr>) (Deposito 10) =
     registrar strftime_model strptime_model agora_ex agora_ex (Deposito 10)
       (Conta \<lparr>saldo = 100, numero = 1, historico = take 2 historico_ex\<rparr>)"
  using Cliente_realizar_transacao_limite_diario
      [where F = strftime_model and P = strptime_model and acl = agora_ex and ac = agora_ex and
        ah = agora_ex and t = "Deposito 10" and
        c = "Conta \<lparr>saldo = 100, numero = 1, historico = historico_ex\<rparr>"]
    Cliente_realizar_transacao_limite_diario
      [where F = strftime_model and P = strptime_model and acl = agora_ex and ac = agora_ex and
        ah = agora_ex and t = "Deposito 10" and
        c = "Conta \<lparr>saldo = 100, numero = 1, historico = take 2 historico_ex\<rparr>"]
  by (simp add: ex_defs model_defs)

text \<open>What \<^verbatim>\<open>realizar_transacao\<close> does to the history, and that a refusal changes nothing.\<close>

lemma realizar_falha:
  "\<not> fst (Cliente_realizar_transacao F P acl ac ah c t) \<Longrightarrow>
   snd (snd (Cliente_realizar_transacao F P acl ac ah c t)) = c"
  by (simp add: Cliente_realizar_transacao_def registrar_operacao split: if_splits)

lemma realizar_historico:
  "historico_de (snd (snd (Cliente_realizar_transacao F P acl ac ah c t))) =
     (if fst (Cliente_realizar_transacao F P acl ac ah c t)
      then historico_de c @ [registro_de F ah t] else historico_de c)"
  by (simp add: Cliente_realizar_transacao_def registrar_operacao historico_com_historico)

text \<open>
  C9. Through \<^verbatim>\<open>realizar_transacao\<close> the history grows by the record of the
  transaction when the attempt succeeds and stays as it was when it fails. A refused
  attempt returns the account unchanged, so on any later reading of the clock the number
  of today's records and of today's withdrawals, which the two daily caps are tested
  against, is what it was before. The same holds for \<^verbatim>\<open>registrar\<close> called directly.
\<close>

theorem tentativa_recusada_nao_consome_limite:
  "historico_de (snd (snd (Cliente_realizar_transacao F P acl ac ah c t))) =
     (if fst (Cliente_realizar_transacao F P acl ac ah c t)
      then historico_de c @ [registro_de F ah t] else historico_de c) \<and>
   (\<not> fst (Cliente_realizar_transacao F P acl ac ah c t) \<longrightarrow>
      snd (snd (Cliente_realizar_transacao F P acl ac ah c t)) = c \<and>
      transacoes_hoje P' a (snd (snd (Cliente_realizar_transacao F P acl ac ah c t))) =
        transacoes_hoje P' a c \<and>
      saques_hoje P' a (snd (snd (Cliente_realizar_transacao F P acl ac ah c t))) =
        saques_hoje P' a c) \<and>
   (\<not> fst (registrar F P ac ah t c) \<longrightarrow> snd (snd (registrar F P ac ah t c)) = c)"
  using realizar_falha [of F P acl ac ah c t]
  by (simp add: realizar_historico registrar_operacao)

theorem tentativa_recusada_nao_consome_limite_witness:
  "\<not> fst (Cliente_realizar_transacao strftime_model strptime_model agora_ex agora_ex agora_ex
       (ContaCorrente \<lparr>saldo = 1000, numero = 1, historico = take 2 historico_ex,
          limite = 500, limite_saques = 3\<rparr>) (Saque 600)) \<and>
   transacoes_hoje strptime_model agora_ex
     (snd (snd (Cliente_realizar_transacao strftime_model strptime_model agora_ex agora_ex agora_ex
       (ContaCorrente \<lparr>saldo = 1000, numero = 1, historico = take 2 historico_ex,
          limite = 500, limite_saques = 3\<rparr>) (Saque 600)))) = 1 \<and>
   saques_hoje strptime_model agora_ex
     (snd (snd (Cliente_realizar_transacao strftime_model strptime_model agora_ex agora_ex agora_ex
       (ContaCorrente \<lparr>saldo = 1000, numero = 1, historico = take 2 historico_ex,
          limite = 500, limite_saques = 3\<rparr>) (Saque 600)))) = 1"
proof -
  let ?c = "ContaCorrente \<lparr>saldo = 1000, numero = 1, historico = take 2 historico_ex,
    limite = 500, limite_saques = 3\<rparr>"
  have recusada: "\<not> fst (Cliente_realizar_transacao strftime_model strptime_model
      agora_ex agora_ex agora_ex ?c (Saque 600))"
    by (simp add: Cliente_realizar_transacao_def Saque_registrar_def ContaCorrente_sacar_def
        transacoes_do_dia_filter ex_defs model_defs)
  have antes: "transacoes_hoje strptime_model agora_ex ?c = 1"
    "saques_hoje strptime_model agora_ex ?c = 1"
    by (simp_all add: transacoes_hoje_def saques_hoje_def transacoes_do_dia_filter ex_defs
        model_defs)
  from recusada antes show ?thesis
    using tentativa_recusada_nao_consome_limite
      [where F = strftime_model and P = strptime_model and acl = agora_ex and ac = agora_ex and
        ah = agora_ex and c = ?c and t = "Saque 600" and P' = strptime_model and a = agora_ex]
    by simp
qed

text \<open>
  After two accepted transactions whose records are read back with today's date, a third
  attempt on that day is refused by the client, whatever the transaction.
\<close>

lemma terceira_transacao_recusada:
  assumes primeira: "fst (Cliente_realizar_transacao F P acl ac ah c t)"
    and segunda: "fst (Cliente_realizar_transacao F P bcl bc bh
      (snd (snd (Cliente_realizar_transacao F P acl ac ah c t))) u)"
    and hoje: "data_armazenada P (registro_de F ah t) = Some (date d)"
      "data_armazenada P (registro_de F bh u) = Some (date d)"
  shows "Cliente_realizar_transacao F P d dc dh
      (snd (snd (Cliente_realizar_transacao F P bcl bc bh
        (snd (snd (Cliente_realizar_transacao F P acl ac ah c t))) u))) w =
    (False, [Transacoes_excedidas],
      snd (snd (Cliente_realizar_transacao F P bcl bc bh
        (snd (snd (Cliente_realizar_transacao F P acl ac ah c t))) u)))"
proof -
  let ?c1 = "snd (snd (Cliente_realizar_transacao F P acl ac ah c t))"
  let ?c2 = "snd (snd (Cliente_realizar_transacao F P bcl bc bh ?c1 u))"
  have "historico_de ?c1 = historico_de c @ [registro_de F ah t]"
    using primeira by (simp add: realizar_historico)
  moreover have "historico_de ?c2 = historico_de ?c1 @ [registro_de F bh u]"
    using segunda by (simp add: realizar_historico)
  ultimately have "historico_de ?c2 =
      historico_de c @ [registro_de F ah t, registro_de F bh u]"
    by simp
  then have "2 \<le> length (Historico_transacoes_do_dia P d (historico_de ?c2))"
    using hoje by (simp add: transacoes_do_dia_filter)
  then show ?thesis
    by (simp add: Cliente_realizar_transacao_def)
qed

section \<open>The balance is never negative\<close>










section \<open>The model of the library reads back what it writes\<close>

lemma digito_nth: "d < 10 \<Longrightarrow> digito (''0123456789'' ! d) = Some d"
proof -
  assume "d < 10"
  then have "d = 0 \<or> d = 1 \<or> d = 2 \<or> d = 3 \<or> d = 4 \<or> d = 5 \<or> d = 6 \<or> d = 7 \<or>
      d = 8 \<or> d = 9"
    by arith
  then show ?thesis
    by (elim disjE) (simp_all add: digito_def)
qed

lemma numero_dois_digitos:
  assumes "n < 100"
  shows "numero_decimal acc (dois_digitos n) = Some (100 * acc + n)"
proof -
  from assms have a: "n div 10 mod 10 = n div 10" "n div 10 < 10" "n mod 10 < 10"
    by auto
  have "numero_decimal acc (dois_digitos n) = Some (10 * (10 * acc + n div 10) + n mod 10)"
    using digito_nth [OF a(2)] digito_nth [OF a(3)]
    by (simp add: dois_digitos_def a(1))
  then show ?thesis
    by simp
qed

lemma numero_quatro_digitos:
  assumes "y < 10000"
  shows "numero_decimal 0 (dois_digitos (y div 100) @ dois_digitos (y mod 100)) = Some y"
proof -
  obtain a b where ab: "dois_digitos (y div 100) = [a, b]"
    by (simp add: dois_digitos_def)
  have "y div 100 < 100"
    using assms by simp
  then have 1: "numero_decimal 0 [a, b] = Some (y div 100)"
    using numero_dois_digitos [of "y div 100" 0] by (simp add: ab)
  have 2: "numero_decimal (y div 100) (dois_digitos (y mod 100)) =
      Some (100 * (y div 100) + y mod 100)"
    by (rule numero_dois_digitos) simp
  have "numero_decimal 0 ([a, b] @ dois_digitos (y mod 100)) =
      numero_decimal (y div 100) (dois_digitos (y mod 100))"
    using 1 by (simp split: option.splits)
  then show ?thesis
    by (simp add: ab 2)
qed

lemma strptime_strftime:
  assumes "datetime_valido dt"
  shows "strptime_model (strftime_model dt) = Some dt"
proof -
  from assms have r: "day dt < 100" "month dt < 100" "year dt < 10000" "hour dt < 100"
    "minute dt < 100" "second dt < 100"
    by (auto simp: datetime_valido_def dias_no_mes_def split: if_splits)
  obtain d1 d2 where d: "dois_digitos (day dt) = [d1, d2]"
    by (simp add: dois_digitos_def)
  obtain m1 m2 where m: "dois_digitos (month dt) = [m1, m2]"
    by (simp add: dois_digitos_def)
  obtain y1 y2 where y: "dois_digitos (year dt div 100) = [y1, y2]"
    by (simp add: dois_digitos_def)
  obtain y3 y4 where y': "dois_digitos (year dt mod 100) = [y3, y4]"
    by (simp add: dois_digitos_def)
  obtain h1 h2 where h: "dois_digitos (hour dt) = [h1, h2]"
    by (simp add: dois_digitos_def)
  obtain n1 n2 where n: "dois_digitos (minute dt) = [n1, n2]"
    by (simp add: dois_digitos_def)
  obtain s1 s2 where s: "dois_digitos (second dt) = [s1, s2]"
    by (simp add: dois_digitos_def)
  have s_eq: "strftime_model dt =
    [d1, d2, CHR ''-'', m1, m2, CHR ''-'', y1, y2, y3, y4, CHR '' '', h1, h2, CHR '':'',
     n1, n2, CHR '':'', s1, s2]"
    by (simp add: strftime_model_def d m y y' h n s)
  have p: "numero_decimal 0 [d1, d2] = Some (day dt)"
    "numero_decimal 0 [m1, m2] = Some (month dt)"
    "numero_decimal 0 [y1, y2, y3, y4] = Some (year dt)"
    "numero_decimal 0 [h1, h2] = Some (hour dt)"
    "numero_decimal 0 [n1, n2] = Some (minute dt)"
    "numero_decimal 0 [s1, s2] = Some (second dt)"
    using numero_dois_digitos [OF r(1), of 0] numero_dois_digitos [OF r(2), of 0]
      numero_quatro_digitos [OF r(3)]
      numero_dois_digitos [OF r(4), of 0] numero_dois_digitos [OF r(5), of 0]
      numero_dois_digitos [OF r(6), of 0]
    by (simp_all only: d m y y' h n s append_Cons append_Nil mult_0_right add_0)
  show ?thesis
    unfolding strptime_model_def s_eq using assms
    by (simp add: p Let_def datetime_valido_def del: numero_decimal.simps)
qed

text \<open>
  With this library, two accepted transactions stamped on the day of \<open>d\<close> always make the
  client refuse a third attempt on that day.
\<close>

lemma terceira_transacao_recusada_model:
  assumes "fst (Cliente_realizar_transacao strftime_model strptime_model acl ac ah c t)"
    and "fst (Cliente_realizar_transacao strftime_model strptime_model bcl bc bh
      (snd (snd (Cliente_realizar_transacao strftime_model strptime_model acl ac ah c t))) u)"
    and "datetime_valido ah" "datetime_valido bh" "date ah = date d" "date bh = date d"
  shows "fst (Cliente_realizar_transacao strftime_model strptime_model d dc dh
      (snd (snd (Cliente_realizar_transacao strftime_model strptime_model bcl bc bh
        (snd (snd (Cliente_realizar_transacao strftime_model strptime_model acl ac ah c t)))
          u))) w) = False"
proof -
  have "data_armazenada strptime_model (registro_de strftime_model ah t) = Some (date d)"
    "data_armazenada strptime_model (registro_de strftime_model bh u) = Some (date d)"
    using assms(3-6) by (simp_all add: data_armazenada_def registro_de_def strptime_strftime)
  from terceira_transacao_recusada [OF assms(1,2) this]
  show ?thesis
    by simp
qed

end
